theory Spec2Isabelle
  imports Complex_Main "HOL-Library.Char_ord" "HOL-Library.List_Lexorder"
begin

section \<open>The location-history converter (location\_history\_to\_kml.py)\<close>

text \<open>
  A shallow embedding of class \<open>LocationHistoryConverter\<close>. Python floats are modelled as
  \<open>real\<close>. The float tests the converter makes itself are \<open>x != 0\<close> on
  \<open>n / 10000000.0\<close> for an integer \<open>n\<close> (a nonzero integer has magnitude at least 1,
  so the quotient does not underflow; an integer beyond the float range raises
  OverflowError, which the model has as an error value) and \<open>hours >= 1\<close>, \<open>minutes >= 60\<close> on durations
  that are whole microseconds; on these they agree with exact arithmetic. What a float
  prints as is left to the runtime.
  Strings are \<open>string\<close>. A decoded JSON object is a record whose optional keys are
  \<open>option\<close> fields (\<open>None\<close>: the key is absent), typed as in the export: timestamps,
  locations, types and identifiers are strings, probabilities and distances numbers,
  E7 components integers.
\<close>

subsection \<open>Values of the Python runtime\<close>

datatype error = TypeError | OverflowError

text \<open>
  A \<open>datetime\<close>: \<open>wall\<close> is the calendar reading (year to microsecond) counted in
  microseconds, \<open>tzinfo\<close> the UTC offset in microseconds of an aware value and \<open>None\<close> for
  a naive one. \<open>replace(tzinfo=...)\<close> changes \<open>tzinfo\<close> and keeps \<open>wall\<close>.
\<close>

record datetime =
  wall :: int
  tzinfo :: "int option"

definition utc :: int where
  "utc = 0"

text \<open>\<open>a < b\<close> and \<open>a > b\<close> on datetimes: two naive values compare their readings, two aware
  values compare after subtracting the offsets, a naive and an aware value raise TypeError.\<close>

definition dt_less :: "datetime \<Rightarrow> datetime \<Rightarrow> error + bool" where
  "dt_less a b =
     (case (tzinfo a, tzinfo b) of
        (None, None) \<Rightarrow> Inr (wall a < wall b)
      | (Some oa, Some ob) \<Rightarrow> Inr (wall a - oa < wall b - ob)
      | _ \<Rightarrow> Inl TypeError)"

definition dt_greater :: "datetime \<Rightarrow> datetime \<Rightarrow> error + bool" where
  "dt_greater a b = dt_less b a"

text \<open>\<open>a - b\<close> on datetimes, as a timedelta in microseconds; the same rule on awareness.\<close>

definition dt_sub :: "datetime \<Rightarrow> datetime \<Rightarrow> error + int" where
  "dt_sub a b =
     (case (tzinfo a, tzinfo b) of
        (None, None) \<Rightarrow> Inr (wall a - wall b)
      | (Some oa, Some ob) \<Rightarrow> Inr ((wall a - oa) - (wall b - ob))
      | _ \<Rightarrow> Inl TypeError)"

definition total_seconds :: "int \<Rightarrow> real" where
  "total_seconds td = real_of_int td / 1000000"

text \<open>
  The library functions the converter calls but does not define, and the order in which
  a \<open>set\<close> of strings is iterated (it depends on the hash seed of the process).
  \<open>None\<close> from \<open>fromisoformat\<close> and \<open>float_of_str\<close> stands for ValueError.
  \<open>int_overflows n\<close> says that the conversion of the int \<open>n\<close> to a float, which
  \<open>n / 10000000.0\<close> starts with, raises OverflowError (\<open>n\<close> lies beyond the float range).
\<close>

record runtime =
  fromisoformat :: "string \<Rightarrow> datetime option"
  strftime :: "datetime \<Rightarrow> string \<Rightarrow> string"
  float_of_str :: "string \<Rightarrow> real option"
  str_float :: "real \<Rightarrow> string"
  format_f :: "nat \<Rightarrow> real \<Rightarrow> string"
  format_pct :: "nat \<Rightarrow> real \<Rightarrow> string"
  str_title :: "string \<Rightarrow> string"
  int_overflows :: "int \<Rightarrow> bool"
  set_iter :: "string set \<Rightarrow> string list"

text \<open>\<open>d.get(k, default)\<close> on an optional key.\<close>

definition get_or :: "'a option \<Rightarrow> 'a \<Rightarrow> 'a" where
  "get_or x d = (case x of None \<Rightarrow> d | Some v \<Rightarrow> v)"

subsection \<open>Decoded JSON input\<close>

record e7_point =
  latE7 :: "int option"
  lngE7 :: "int option"

record transit_stop =
  latitudeE7 :: "int option"
  longitudeE7 :: "int option"

text \<open>
  The three path objects. As the value of an optional key, \<open>None\<close> is a falsy value (key
  absent, null or the empty object) and \<open>Some p\<close> a non-empty object; its list is
  \<open>None\<close> when the object has no such key.
\<close>

record raw_path =
  points :: "e7_point list option"

record waypoint_path =
  waypoints :: "e7_point list option"

record transit_path =
  transitStops :: "transit_stop list option"

type_synonym coord = "real \<times> real"

subsection \<open>Processed records\<close>

text \<open>The dict built by \<open>process_activity\<close> (its constant key \<open>'type'\<close> is never read).\<close>

record activity =
  activity_type :: string
  start_time :: "datetime option"
  end_time :: "datetime option"
  start_coords :: "coord option"
  end_coords :: "coord option"
  probability :: real
  distance :: "real option"
  simplified_raw_path :: "raw_path option"
  waypoint_path :: "waypoint_path option"
  transit_path :: "transit_path option"

text \<open>The dict built by \<open>create_track_from_activity\<close>.\<close>

record track =
  coordinates :: "coord list"
  trk_start_time :: "datetime option"
  trk_end_time :: "datetime option"
  trk_activity_type :: string
  trk_distance :: "real option"
  track_type :: string

subsection \<open>Track derivation\<close>

text \<open>The list under \<open>key\<close> of an optional path object; \<open>obj and obj.get(key)\<close> is
  truthy exactly when this list is non-empty.\<close>

definition path_list :: "'p option \<Rightarrow> ('p \<Rightarrow> 'a list option) \<Rightarrow> 'a list" where
  "path_list obj key = (case obj of None \<Rightarrow> [] | Some p \<Rightarrow> get_or (key p) [])"

text \<open>The loops over \<open>points\<close> and \<open>waypoints\<close> (keys \<open>latE7\<close>, \<open>lngE7\<close>) and over
  \<open>transitStops\<close> (keys \<open>latitudeE7\<close>, \<open>longitudeE7\<close>), appending to \<open>coordinates\<close> (here
  \<open>cs\<close>). Each division converts its int first, the latitude before the longitude, and
  the exception of a conversion leaves the loop.\<close>

fun e7_loop :: "runtime \<Rightarrow> coord list \<Rightarrow> e7_point list \<Rightarrow> error + coord list" where
  "e7_loop py cs [] = Inr cs"
| "e7_loop py cs (point # rest) =
     (if int_overflows py (get_or (latE7 point) 0) then Inl OverflowError
      else if int_overflows py (get_or (lngE7 point) 0) then Inl OverflowError
      else (let lat = real_of_int (get_or (latE7 point) 0) / 10000000;
                lon = real_of_int (get_or (lngE7 point) 0) / 10000000
            in if lat \<noteq> 0 \<and> lon \<noteq> 0
               then e7_loop py (cs @ [(lat, lon)]) rest
               else e7_loop py cs rest))"

fun stop_loop :: "runtime \<Rightarrow> coord list \<Rightarrow> transit_stop list \<Rightarrow> error + coord list" where
  "stop_loop py cs [] = Inr cs"
| "stop_loop py cs (stop # rest) =
     (if int_overflows py (get_or (latitudeE7 stop) 0) then Inl OverflowError
      else if int_overflows py (get_or (longitudeE7 stop) 0) then Inl OverflowError
      else (let lat = real_of_int (get_or (latitudeE7 stop) 0) / 10000000;
                lon = real_of_int (get_or (longitudeE7 stop) 0) / 10000000
            in if lat \<noteq> 0 \<and> lon \<noteq> 0
               then stop_loop py (cs @ [(lat, lon)]) rest
               else stop_loop py cs rest))"

definition get_track_type :: "activity \<Rightarrow> string" where
  "get_track_type a =
     (if simplified_raw_path a \<noteq> None then ''gps_track''
      else if waypoint_path a \<noteq> None then ''waypoint_track''
      else if transit_path a \<noteq> None then ''transit_track''
      else ''simple_track'')"

text \<open>The if/elif chain that fills \<open>coordinates\<close> (lines 84 to 118).\<close>

definition track_coordinates :: "runtime \<Rightarrow> activity \<Rightarrow> error + coord list" where
  "track_coordinates py a =
     (if path_list (simplified_raw_path a) points \<noteq> []
      then e7_loop py [] (path_list (simplified_raw_path a) points)
      else if path_list (waypoint_path a) waypoints \<noteq> []
      then e7_loop py [] (path_list (waypoint_path a) waypoints)
      else if path_list (transit_path a) transitStops \<noteq> []
      then stop_loop py [] (path_list (transit_path a) transitStops)
      else (case (start_coords a, end_coords a) of
              (Some s, Some e) \<Rightarrow> Inr [s, e]
            | _ \<Rightarrow> Inr []))"

definition create_track_from_activity :: "runtime \<Rightarrow> activity \<Rightarrow> error + track option" where
  "create_track_from_activity py a =
     (case track_coordinates py a of
        Inl err \<Rightarrow> Inl err
      | Inr cs \<Rightarrow>
          if length cs < 2 then Inr None
          else Inr (Some \<lparr>coordinates = cs,
                          trk_start_time = start_time a,
                          trk_end_time = end_time a,
                          trk_activity_type = activity_type a,
                          trk_distance = distance a,
                          track_type = get_track_type a\<rparr>))"

subsection \<open>Parsing fields\<close>

text \<open>\<open>s.split(sep)\<close> for a one-character separator.\<close>

fun split_on :: "char \<Rightarrow> string \<Rightarrow> string list" where
  "split_on sep [] = [[]]"
| "split_on sep (c # s) =
     (if c = sep then [] # split_on sep s
      else (case split_on sep s of
              [] \<Rightarrow> [[c]]
            | w # ws \<Rightarrow> (c # w) # ws))"

definition parse_geo_coordinate :: "runtime \<Rightarrow> string option \<Rightarrow> coord option" where
  "parse_geo_coordinate py geo_string =
     (case geo_string of
        None \<Rightarrow> None
      | Some s \<Rightarrow>
          if s = [] \<or> take 4 s \<noteq> ''geo:'' then None
          else (let coords = split_on (CHR '','') (drop 4 s)
                in if length coords \<noteq> 2 then None
                   else (case (float_of_str py (coords ! 0), float_of_str py (coords ! 1)) of
                           (Some lat, Some lon) \<Rightarrow> Some (lat, lon)
                         | _ \<Rightarrow> None)))"

definition parse_timestamp :: "runtime \<Rightarrow> string option \<Rightarrow> datetime option" where
  "parse_timestamp py timestamp_str =
     (case timestamp_str of
        None \<Rightarrow> None
      | Some s \<Rightarrow>
          if s = [] then None
          else if last s = CHR ''Z'' then fromisoformat py (butlast s @ ''+00:00'')
          else if CHR ''+'' \<in> set s \<or> count_list s (CHR ''-'') > 2 then fromisoformat py s
          else fromisoformat py s)"

definition format_timestamp_for_kml :: "runtime \<Rightarrow> datetime \<Rightarrow> string" where
  "format_timestamp_for_kml py dt = strftime py dt ''%Y-%m-%d %H:%M:%S''"

definition get_date_key :: "runtime \<Rightarrow> datetime \<Rightarrow> string" where
  "get_date_key py dt = strftime py dt ''%Y-%m-%d''"

subsection \<open>Raw entries\<close>

record top_activity =
  tc_type :: "string option"

record activity_obj =
  geo_start :: "string option"
  geo_end :: "string option"
  topCandidate :: "top_activity option"
  a_probability :: "real option"
  distanceMeters :: "real option"
  simplifiedRawPath :: "raw_path option"
  waypointPath :: "waypoint_path option"
  transitPath :: "transit_path option"

record top_visit =
  placeLocation :: "string option"
  placeID :: "string option"
  semanticType :: "string option"

record visit_obj =
  v_topCandidate :: "top_visit option"
  v_probability :: "real option"
  hierarchyLevel :: "string option"

text \<open>One entry of the input list; \<open>e_activity\<close> and \<open>e_visit\<close> are its keys
  \<open>'activity'\<close> and \<open>'visit'\<close>. A timestamp key is absent (\<open>None\<close>), present with the
  value null (\<open>Some None\<close>) or present with a string (\<open>Some (Some s)\<close>): the date filter
  tests the presence of the key, and \<open>get_key\<close> is \<open>entry.get(key)\<close>, which gives Python's
  \<open>None\<close> for an absent key and for null.\<close>

record entry =
  startTime :: "string option option"
  endTime :: "string option option"
  e_activity :: "activity_obj option"
  e_visit :: "visit_obj option"

definition get_key :: "'a option option \<Rightarrow> 'a option" where
  "get_key x = (case x of None \<Rightarrow> None | Some v \<Rightarrow> v)"

text \<open>The default \<open>{}\<close> of \<open>get\<close>: an object with no key.\<close>

definition no_activity_obj :: activity_obj where
  "no_activity_obj = \<lparr>geo_start = None, geo_end = None, topCandidate = None,
     a_probability = None, distanceMeters = None, simplifiedRawPath = None,
     waypointPath = None, transitPath = None\<rparr>"

definition no_top_activity :: top_activity where
  "no_top_activity = \<lparr>tc_type = None\<rparr>"

definition no_visit_obj :: visit_obj where
  "no_visit_obj = \<lparr>v_topCandidate = None, v_probability = None, hierarchyLevel = None\<rparr>"

definition no_top_visit :: top_visit where
  "no_top_visit = \<lparr>placeLocation = None, placeID = None, semanticType = None\<rparr>"

text \<open>The dict built by \<open>process_visit\<close>.\<close>

record visit =
  vis_start_time :: "datetime option"
  vis_end_time :: "datetime option"
  coords :: coord
  place_id :: "string option"
  semantic_type :: string
  vis_probability :: real
  hierarchy_level :: string

definition process_activity :: "runtime \<Rightarrow> entry \<Rightarrow> activity option" where
  "process_activity py e =
     (let act = get_or (e_activity e) no_activity_obj;
          st = parse_timestamp py (get_key (startTime e));
          et = parse_timestamp py (get_key (endTime e));
          sc = parse_geo_coordinate py (geo_start act);
          ec = parse_geo_coordinate py (geo_end act)
      in if sc = None \<and> ec = None then None
         else Some \<lparr>activity_type = get_or (tc_type (get_or (topCandidate act) no_top_activity)) ''Unknown'',
                    start_time = st,
                    end_time = et,
                    start_coords = sc,
                    end_coords = ec,
                    probability = get_or (a_probability act) 0,
                    distance = distanceMeters act,
                    simplified_raw_path = simplifiedRawPath act,
                    waypoint_path = waypointPath act,
                    transit_path = transitPath act\<rparr>)"

definition process_visit :: "runtime \<Rightarrow> entry \<Rightarrow> visit option" where
  "process_visit py e =
     (let vis = get_or (e_visit e) no_visit_obj;
          st = parse_timestamp py (get_key (startTime e));
          et = parse_timestamp py (get_key (endTime e));
          top_candidate = get_or (v_topCandidate vis) no_top_visit
      in (case parse_geo_coordinate py (placeLocation top_candidate) of
            None \<Rightarrow> None
          | Some location_coords \<Rightarrow>
              Some \<lparr>vis_start_time = st,
                    vis_end_time = et,
                    coords = location_coords,
                    place_id = placeID top_candidate,
                    semantic_type = get_or (semanticType top_candidate) ''Unknown'',
                    vis_probability = get_or (v_probability vis) 0,
                    hierarchy_level = get_or (hierarchyLevel vis) ''0''\<rparr>))"

subsection \<open>Filters\<close>

text \<open>Lines 165 to 169: the timestamp the date filter looks at.\<close>

definition entry_time :: "runtime \<Rightarrow> entry \<Rightarrow> datetime option" where
  "entry_time py e =
     (case startTime e of
        Some v \<Rightarrow> parse_timestamp py v
      | None \<Rightarrow>
          (case endTime e of
             Some v \<Rightarrow> parse_timestamp py v
           | None \<Rightarrow> None))"

text \<open>Lines 175 to 178: a naive bound gets UTC when the entry time is aware.\<close>

definition make_aware :: "datetime option \<Rightarrow> datetime \<Rightarrow> datetime option" where
  "make_aware bound t =
     (case bound of
        None \<Rightarrow> None
      | Some d \<Rightarrow> if tzinfo d = None \<and> tzinfo t \<noteq> None
                  then Some (d\<lparr>tzinfo := Some utc\<rparr>) else Some d)"

text \<open>Lines 181 to 184: an aware entry time is made naive when the bound is naive.\<close>

definition make_naive :: "datetime option \<Rightarrow> datetime \<Rightarrow> datetime" where
  "make_naive bound t =
     (case bound of
        None \<Rightarrow> t
      | Some d \<Rightarrow> if tzinfo d = None \<and> tzinfo t \<noteq> None
                  then t\<lparr>tzinfo := None\<rparr> else t)"

text \<open>\<open>start_date and entry_time < start_date\<close>, \<open>end_date and entry_time > end_date\<close>.\<close>

definition below_bound :: "datetime option \<Rightarrow> datetime \<Rightarrow> error + bool" where
  "below_bound bound t = (case bound of None \<Rightarrow> Inr False | Some d \<Rightarrow> dt_less t d)"

definition above_bound :: "datetime option \<Rightarrow> datetime \<Rightarrow> error + bool" where
  "above_bound bound t = (case bound of None \<Rightarrow> Inr False | Some d \<Rightarrow> dt_greater t d)"

definition filter_by_date_range ::
  "runtime \<Rightarrow> entry \<Rightarrow> datetime option \<Rightarrow> datetime option \<Rightarrow> error + bool" where
  "filter_by_date_range py e start_date end_date =
     (if start_date = None \<and> end_date = None then Inr True
      else (case entry_time py e of
              None \<Rightarrow> Inr True
            | Some t0 \<Rightarrow>
                (let sd = make_aware start_date t0;
                     ed = make_aware end_date t0;
                     t1 = make_naive sd t0;
                     t2 = make_naive ed t1
                 in (case below_bound sd t2 of
                       Inl err \<Rightarrow> Inl err
                     | Inr True \<Rightarrow> Inr False
                     | Inr False \<Rightarrow>
                         (case above_bound ed t2 of
                            Inl err \<Rightarrow> Inl err
                          | Inr True \<Rightarrow> Inr False
                          | Inr False \<Rightarrow> Inr True)))))"

definition filter_by_accuracy :: "entry \<Rightarrow> real option \<Rightarrow> bool" where
  "filter_by_accuracy e min_accuracy =
     (if min_accuracy = None \<or> min_accuracy = Some 0 then True else True)"

subsection \<open>The converter state and the processing loop\<close>

text \<open>A \<open>defaultdict(list)\<close> keyed by day, in insertion order.\<close>

type_synonym 'a by_day = "(string \<times> 'a list) list"

text \<open>\<open>d[k].append(v)\<close>: a missing key is created with the empty list first.\<close>

fun day_append :: "string \<Rightarrow> 'a \<Rightarrow> 'a by_day \<Rightarrow> 'a by_day" where
  "day_append k v [] = [(k, [v])]"
| "day_append k v ((k', xs) # d) =
     (if k' = k then (k', xs @ [v]) # d else (k', xs) # day_append k v d)"

definition keys :: "'a by_day \<Rightarrow> string list" where
  "keys d = map fst d"

record converter =
  activities :: "activity list"
  visits :: "visit list"
  tracks :: "track list"
  activities_by_day :: "activity by_day"
  visits_by_day :: "visit by_day"
  tracks_by_day :: "track by_day"
  stats_total_entries :: nat
  stats_activities :: nat
  stats_visits :: nat
  stats_tracks :: nat
  stats_filtered_out :: nat

text \<open>\<open>__init__\<close>.\<close>

definition init :: converter where
  "init = \<lparr>activities = [], visits = [], tracks = [],
     activities_by_day = [], visits_by_day = [], tracks_by_day = [],
     stats_total_entries = 0, stats_activities = 0, stats_visits = 0,
     stats_tracks = 0, stats_filtered_out = 0\<rparr>"

record config =
  start_date :: "datetime option"
  end_date :: "datetime option"
  min_accuracy :: "real option"
  include_activities :: bool
  include_visits :: bool
  group_by_day :: bool
  include_tracks :: bool

text \<open>Lines 313 to 322: the track of a stored activity.\<close>

definition add_track :: "runtime \<Rightarrow> config \<Rightarrow> activity \<Rightarrow> converter \<Rightarrow> error + converter" where
  "add_track py cfg processed c =
     (if include_tracks cfg then
        (case create_track_from_activity py processed of
           Inl err \<Rightarrow> Inl err
         | Inr None \<Rightarrow> Inr c
         | Inr (Some track_segment) \<Rightarrow>
             (let c1 = c\<lparr>tracks := tracks c @ [track_segment],
                          stats_tracks := stats_tracks c + 1\<rparr>
              in (case start_time processed of
                    Some t \<Rightarrow>
                      if group_by_day cfg
                      then Inr (c1\<lparr>tracks_by_day :=
                             day_append (get_date_key py t) track_segment (tracks_by_day c1)\<rparr>)
                      else Inr c1
                  | None \<Rightarrow> Inr c1)))
      else Inr c)"

text \<open>Lines 307 to 327.\<close>

definition add_activity :: "runtime \<Rightarrow> config \<Rightarrow> entry \<Rightarrow> converter \<Rightarrow> error + converter" where
  "add_activity py cfg e c =
     (case process_activity py e of
        None \<Rightarrow> Inr c
      | Some processed \<Rightarrow>
          (let c1 = c\<lparr>activities := activities c @ [processed],
                       stats_activities := stats_activities c + 1\<rparr>
           in (case add_track py cfg processed c1 of
                 Inl err \<Rightarrow> Inl err
               | Inr c2 \<Rightarrow>
                   (case start_time processed of
                      Some t \<Rightarrow>
                        if group_by_day cfg
                        then Inr (c2\<lparr>activities_by_day :=
                               day_append (get_date_key py t) processed (activities_by_day c2)\<rparr>)
                        else Inr c2
                    | None \<Rightarrow> Inr c2))))"

text \<open>Lines 329 to 338.\<close>

definition add_visit :: "runtime \<Rightarrow> config \<Rightarrow> entry \<Rightarrow> converter \<Rightarrow> converter" where
  "add_visit py cfg e c =
     (case process_visit py e of
        None \<Rightarrow> c
      | Some processed \<Rightarrow>
          (let c1 = c\<lparr>visits := visits c @ [processed],
                       stats_visits := stats_visits c + 1\<rparr>
           in (case vis_start_time processed of
                 Some t \<Rightarrow>
                   if group_by_day cfg
                   then c1\<lparr>visits_by_day :=
                          day_append (get_date_key py t) processed (visits_by_day c1)\<rparr>
                   else c1
               | None \<Rightarrow> c1)))"

text \<open>The body of the loop over the entries (lines 295 to 338); an exception of the date
  filter or of the track derivation leaves the loop.\<close>

definition process_entry :: "runtime \<Rightarrow> config \<Rightarrow> entry \<Rightarrow> converter \<Rightarrow> error + converter" where
  "process_entry py cfg e c0 =
     (let c = c0\<lparr>stats_total_entries := stats_total_entries c0 + 1\<rparr>
      in (case filter_by_date_range py e (start_date cfg) (end_date cfg) of
            Inl err \<Rightarrow> Inl err
          | Inr False \<Rightarrow> Inr (c\<lparr>stats_filtered_out := stats_filtered_out c + 1\<rparr>)
          | Inr True \<Rightarrow>
              if \<not> filter_by_accuracy e (min_accuracy cfg)
              then Inr (c\<lparr>stats_filtered_out := stats_filtered_out c + 1\<rparr>)
              else if e_activity e \<noteq> None \<and> include_activities cfg
              then add_activity py cfg e c
              else if e_visit e \<noteq> None \<and> include_visits cfg
              then Inr (add_visit py cfg e c)
              else Inr c))"

fun process_entries :: "runtime \<Rightarrow> config \<Rightarrow> entry list \<Rightarrow> converter \<Rightarrow> error + converter" where
  "process_entries py cfg [] c = Inr c"
| "process_entries py cfg (e # es) c =
     (case process_entry py cfg e c of
        Inl err \<Rightarrow> Inl err
      | Inr c' \<Rightarrow> process_entries py cfg es c')"

subsection \<open>Writing the document\<close>

text \<open>
  Every \<open>f.write\<close> of the converter writes one line ending in a newline. The output of a
  writer is the list of lines it wrote (without the newline) and the exception that
  stopped it, if one did: what was written before stays in the file.
\<close>

type_synonym out = "string list \<times> error option"

definition emit :: "string \<Rightarrow> out" where
  "emit s = ([s], None)"

definition skip :: out where
  "skip = ([], None)"

definition raise :: "error \<Rightarrow> out" where
  "raise err = ([], Some err)"

text \<open>One statement after another: the second runs only if the first did not raise.\<close>

definition seq :: "out \<Rightarrow> out \<Rightarrow> out" where
  "seq a b = (case snd a of Some err \<Rightarrow> a | None \<Rightarrow> (fst a @ fst b, snd b))"

definition block :: "out list \<Rightarrow> out" where
  "block stmts = foldr seq stmts skip"

definition for_each :: "('a \<Rightarrow> out) \<Rightarrow> 'a list \<Rightarrow> out" where
  "for_each body xs = block (map body xs)"

text \<open>\<open>str(n)\<close> of a length, \<open>s.replace(a, b)\<close> on characters, \<open>sep.join(xs)\<close>.\<close>

fun str_nat :: "nat \<Rightarrow> string" where
  "str_nat n =
     (if n < 10 then [char_of (48 + n)]
      else str_nat (n div 10) @ [char_of (48 + n mod 10)])"

declare str_nat.simps [simp del]

definition replace_char :: "char \<Rightarrow> char \<Rightarrow> string \<Rightarrow> string" where
  "replace_char a b s = map (\<lambda>c. if c = a then b else c) s"

fun join :: "string \<Rightarrow> string list \<Rightarrow> string" where
  "join sep [] = []"
| "join sep [x] = x"
| "join sep (x # y # ys) = x @ sep @ join sep (y # ys)"

text \<open>Truthiness of an optional number and of an optional string.\<close>

definition truthy_num :: "real option \<Rightarrow> bool" where
  "truthy_num x = (x \<noteq> None \<and> x \<noteq> Some 0)"

definition truthy_str :: "string option \<Rightarrow> bool" where
  "truthy_str x = (x \<noteq> None \<and> x \<noteq> Some [])"

definition write_styles :: out where
  \<open>write_styles =
     (let styles =
        [(''activity_start'', ''ff00ff00'', ''https://maps.google.com/mapfiles/kml/pal4/icon56.png''),
         (''activity_end'', ''ff0000ff'', ''https://maps.google.com/mapfiles/kml/pal4/icon56.png''),
         (''visit'', ''ffff0000'', ''https://maps.google.com/mapfiles/kml/pal4/icon49.png''),
         (''visit_hierarchy_1'', ''ff00ffff'', ''https://maps.google.com/mapfiles/kml/pal4/icon49.png'')]
      in block
        [emit ''    <Style id="track_line">'',
         emit ''      <LineStyle>'',
         emit ''        <color>ffcc0000</color>'',
         emit ''        <width>3</width>'',
         emit ''      </LineStyle>'',
         emit ''    </Style>'',
         for_each (\<lambda>(style_id, color, icon). block
           [emit (''    <Style id="'' @ style_id @ ''">''),
            emit ''      <IconStyle>'',
            emit (''        <color>'' @ color @ ''</color>''),
            emit ''        <scale>1.0</scale>'',
            emit ''        <Icon>'',
            emit (''          <href>'' @ icon @ ''</href>''),
            emit ''        </Icon>'',
            emit ''        <hotSpot x="0.5" xunits="fraction" y="0.5" yunits="fraction"/>'',
            emit ''      </IconStyle>'',
            emit ''      <LabelStyle>'',
            emit (''        <color>'' @ color @ ''</color>''),
            emit ''        <scale>1.0</scale>'',
            emit ''      </LabelStyle>'',
            emit ''    </Style>'']) styles])\<close>

definition write_activity_placemark :: "runtime \<Rightarrow> activity \<Rightarrow> string \<Rightarrow> string \<Rightarrow> out" where
  "write_activity_placemark py a point_type indent =
     (let cs = (if point_type = ''start'' then start_coords a else end_coords a);
          time = (if point_type = ''start'' then start_time a else end_time a)
      in (case (cs, time) of
            (Some (lat, lon), Some t) \<Rightarrow>
              (let time_str = format_timestamp_for_kml py t;
                   desc0 = activity_type a @ '' ('' @ point_type @ '')'';
                   desc1 = (if truthy_num (distance a)
                            then desc0 @ ''<br/>Distance: '' @ format_f py 0 (the (distance a)) @ ''m''
                            else desc0);
                   desc = desc1 @ ''<br/>Probability: '' @ format_pct py 1 (probability a)
               in block
                 [emit (indent @ ''<Placemark>''),
                  emit (indent @ ''  <name><![CDATA['' @ time_str @ '']]></name>''),
                  emit (indent @ ''  <description><![CDATA['' @ desc @ '']]></description>''),
                  emit (indent @ ''  <styleUrl>#''
                        @ (if point_type = ''start'' then ''activity_start'' else ''activity_end'')
                        @ ''</styleUrl>''),
                  emit (indent @ ''  <Point>''),
                  emit (indent @ ''    <altitudeMode>clampToGround</altitudeMode>''),
                  emit (indent @ ''    <coordinates>'' @ str_float py lon @ '','' @ str_float py lat
                        @ ''</coordinates>''),
                  emit (indent @ ''  </Point>''),
                  emit (indent @ ''</Placemark>'')])
          | _ \<Rightarrow> skip))"

text \<open>The body of the loop over the activities of a folder (lines 465 to 472 and 567 to
  574).\<close>

definition write_activity_points :: "runtime \<Rightarrow> string \<Rightarrow> activity \<Rightarrow> out" where
  "write_activity_points py indent a =
     block
       [if start_coords a \<noteq> None then write_activity_placemark py a ''start'' indent else skip,
        if end_coords a \<noteq> None then write_activity_placemark py a ''end'' indent else skip]"

text \<open>The duration line of a visit (lines 634 to 641); the subtraction may raise.\<close>

definition visit_duration :: "runtime \<Rightarrow> visit \<Rightarrow> error + string" where
  "visit_duration py v =
     (case (vis_start_time v, vis_end_time v) of
        (Some st, Some et) \<Rightarrow>
          (case dt_sub et st of
             Inl err \<Rightarrow> Inl err
           | Inr duration \<Rightarrow>
               (let hours = total_seconds duration / 3600
                in if hours \<ge> 1
                   then Inr (''<br/>Duration: '' @ format_f py 1 hours @ '' hours'')
                   else (let minutes = total_seconds duration / 60
                         in Inr (''<br/>Duration: '' @ format_f py 0 minutes @ '' minutes''))))
      | _ \<Rightarrow> Inr [])"

definition write_visit_placemark :: "runtime \<Rightarrow> visit \<Rightarrow> string \<Rightarrow> out" where
  "write_visit_placemark py v indent =
     (let (lat, lon) = coords v;
          time = (if vis_start_time v \<noteq> None then vis_start_time v else vis_end_time v);
          time_str = (case time of None \<Rightarrow> ''Unknown time''
                      | Some t \<Rightarrow> format_timestamp_for_kml py t)
      in block
        [emit (indent @ ''<Placemark>''),
         emit (indent @ ''  <name><![CDATA['' @ time_str @ '']]></name>''),
         (case visit_duration py v of
            Inl err \<Rightarrow> raise err
          | Inr dur \<Rightarrow>
              (let desc0 = ''Type: '' @ semantic_type v @ dur
                     @ ''<br/>Probability: '' @ format_pct py 1 (vis_probability v);
                   desc = (if truthy_str (place_id v)
                           then desc0 @ ''<br/>Place ID: '' @ the (place_id v) else desc0);
                   style = (if hierarchy_level v = ''0'' then ''visit'' else ''visit_hierarchy_1'')
               in block
                 [emit (indent @ ''  <description><![CDATA['' @ desc @ '']]></description>''),
                  emit (indent @ ''  <styleUrl>#'' @ style @ ''</styleUrl>''),
                  emit (indent @ ''  <Point>''),
                  emit (indent @ ''    <altitudeMode>clampToGround</altitudeMode>''),
                  emit (indent @ ''    <coordinates>'' @ str_float py lon @ '','' @ str_float py lat
                        @ ''</coordinates>''),
                  emit (indent @ ''  </Point>''),
                  emit (indent @ ''</Placemark>'')]))])"

text \<open>The duration line of a track (lines 518 to 525).\<close>

definition track_duration :: "runtime \<Rightarrow> track \<Rightarrow> error + string" where
  "track_duration py trk =
     (case (trk_start_time trk, trk_end_time trk) of
        (Some st, Some et) \<Rightarrow>
          (case dt_sub et st of
             Inl err \<Rightarrow> Inl err
           | Inr duration \<Rightarrow>
               (let minutes = total_seconds duration / 60
                in if minutes \<ge> 60
                   then (let hours = minutes / 60
                         in Inr (''<br/>Duration: '' @ format_f py 1 hours @ '' hours''))
                   else Inr (''<br/>Duration: '' @ format_f py 0 minutes @ '' minutes'')))
      | _ \<Rightarrow> Inr [])"

definition write_track_placemark :: "runtime \<Rightarrow> track \<Rightarrow> nat \<Rightarrow> string \<Rightarrow> out" where
  "write_track_placemark py trk track_index indent =
     (let cs = coordinates trk
      in if length cs < 2 then skip
         else
           (let start_time_str = (case trk_start_time trk of None \<Rightarrow> ''Unknown''
                                  | Some t \<Rightarrow> format_timestamp_for_kml py t);
                track_name = start_time_str @ '' - '' @ trk_activity_type trk
            in block
              [emit (indent @ ''<Placemark>''),
               emit (indent @ ''  <name><![CDATA['' @ track_name @ '']]></name>''),
               (case track_duration py trk of
                  Inl err \<Rightarrow> raise err
                | Inr dur \<Rightarrow>
                    (let desc0 = ''Activity: '' @ trk_activity_type trk
                           @ ''<br/>Track Type: ''
                           @ str_title py (replace_char (CHR ''_'') (CHR '' '') (track_type trk))
                           @ ''<br/>Points: '' @ str_nat (length cs) @ dur;
                         desc = (if truthy_num (trk_distance trk)
                                 then desc0 @ ''<br/>Distance: ''
                                      @ format_f py 0 (the (trk_distance trk)) @ ''m''
                                 else desc0);
                         coord_strings = map (\<lambda>(lat, lon). str_float py lon @ '','' @ str_float py lat) cs;
                         coordinates_str = join '' '' coord_strings
                     in block
                       [emit (indent @ ''  <description><![CDATA['' @ desc @ '']]></description>''),
                        emit (indent @ ''  <styleUrl>#track_line</styleUrl>''),
                        emit (indent @ ''  <LineString>''),
                        emit (indent @ ''    <altitudeMode>clampToGround</altitudeMode>''),
                        emit (indent @ ''    <coordinates>'' @ coordinates_str @ ''</coordinates>''),
                        emit (indent @ ''  </LineString>''),
                        emit (indent @ ''</Placemark>'')]))]))"

definition write_activities_folder :: "runtime \<Rightarrow> converter \<Rightarrow> out" where
  \<open>write_activities_folder py c =
     block
       [emit ''    <Folder id="activities">'',
        emit ''      <name><![CDATA[Activities]]></name>'',
        emit ''      <visibility>0</visibility>'',
        emit ''      <description><![CDATA[Movement activities like walking, driving, etc.]]></description>'',
        for_each (write_activity_points py ''      '') (activities c),
        emit ''    </Folder>'']\<close>

definition write_visits_folder :: "runtime \<Rightarrow> converter \<Rightarrow> out" where
  \<open>write_visits_folder py c =
     block
       [emit ''    <Folder id="visits">'',
        emit ''      <name><![CDATA[Visits]]></name>'',
        emit ''      <visibility>0</visibility>'',
        emit ''      <description><![CDATA[Places visited and time spent]]></description>'',
        for_each (\<lambda>v. write_visit_placemark py v ''      '') (visits c),
        emit ''    </Folder>'']\<close>

definition write_tracks_folder :: "runtime \<Rightarrow> converter \<Rightarrow> out" where
  \<open>write_tracks_folder py c =
     (if tracks c = [] then skip
      else block
        [emit ''    <Folder id="tracks">'',
         emit ''      <name><![CDATA[Tracks]]></name>'',
         emit ''      <visibility>1</visibility>'',
         emit ''      <description><![CDATA[Movement tracks between locations]]></description>'',
         for_each (\<lambda>(i, trk). write_track_placemark py trk i ''      '') (enumerate 0 (tracks c)),
         emit ''    </Folder>''])\<close>

definition write_daily_activities_folder :: "runtime \<Rightarrow> string \<Rightarrow> activity list \<Rightarrow> out" where
  \<open>write_daily_activities_folder py date_key acts =
     block
       [emit (''      <Folder id="activities_'' @ replace_char (CHR ''-'') (CHR ''_'') date_key @ ''">''),
        emit ''        <name><![CDATA[Activities]]></name>'',
        emit ''        <visibility>0</visibility>'',
        emit (''        <description><![CDATA[Movement activities for '' @ date_key @ '']]></description>''),
        for_each (write_activity_points py ''        '') acts,
        emit ''      </Folder>'']\<close>

definition write_daily_visits_folder :: "runtime \<Rightarrow> string \<Rightarrow> visit list \<Rightarrow> out" where
  \<open>write_daily_visits_folder py date_key vs =
     block
       [emit (''      <Folder id="visits_'' @ replace_char (CHR ''-'') (CHR ''_'') date_key @ ''">''),
        emit ''        <name><![CDATA[Visits]]></name>'',
        emit ''        <visibility>0</visibility>'',
        emit (''        <description><![CDATA[Places visited on '' @ date_key @ '']]></description>''),
        for_each (\<lambda>v. write_visit_placemark py v ''        '') vs,
        emit ''      </Folder>'']\<close>

definition write_daily_tracks_folder :: "runtime \<Rightarrow> string \<Rightarrow> track list \<Rightarrow> out" where
  \<open>write_daily_tracks_folder py date_key ts =
     block
       [emit (''      <Folder id="tracks_'' @ replace_char (CHR ''-'') (CHR ''_'') date_key @ ''">''),
        emit ''        <name><![CDATA[Tracks]]></name>'',
        emit ''        <visibility>1</visibility>'',
        emit (''        <description><![CDATA[Movement tracks for '' @ date_key @ '']]></description>''),
        for_each (\<lambda>(i, trk). write_track_placemark py trk i ''        '') (enumerate 0 ts),
        emit ''      </Folder>'']\<close>

text \<open>\<open>k in d and d[k]\<close>: the list stored under a key, empty when there is none.\<close>

definition day_items :: "'a by_day \<Rightarrow> string \<Rightarrow> 'a list" where
  "day_items d k = (case map_of d k of None \<Rightarrow> [] | Some xs \<Rightarrow> xs)"

text \<open>The body of the loop over the sorted dates (lines 439 to 456).\<close>

definition write_day_folder :: "runtime \<Rightarrow> converter \<Rightarrow> string \<Rightarrow> out" where
  \<open>write_day_folder py c date_key =
     block
       [emit (''    <Folder id="day_'' @ date_key @ ''">''),
        emit (''      <name><![CDATA['' @ date_key @ '']]></name>''),
        emit ''      <visibility>1</visibility>'',
        emit (''      <description><![CDATA[Location data for '' @ date_key @ '']]></description>''),
        if day_items (activities_by_day c) date_key \<noteq> []
        then write_daily_activities_folder py date_key (day_items (activities_by_day c) date_key)
        else skip,
        if day_items (visits_by_day c) date_key \<noteq> []
        then write_daily_visits_folder py date_key (day_items (visits_by_day c) date_key)
        else skip,
        if day_items (tracks_by_day c) date_key \<noteq> []
        then write_daily_tracks_folder py date_key (day_items (tracks_by_day c) date_key)
        else skip,
        emit ''    </Folder>'']\<close>

text \<open>Lines 431 to 436: the set of the dates, and \<open>sorted\<close> of it, which sorts the list of
  its elements in the order the set is iterated.\<close>

definition all_dates :: "converter \<Rightarrow> string set" where
  "all_dates c = {} \<union> set (keys (activities_by_day c)) \<union> set (keys (visits_by_day c))"

definition sorted_dates :: "runtime \<Rightarrow> converter \<Rightarrow> string list" where
  "sorted_dates py c = sort (set_iter py (all_dates c))"

definition write_daily_folders :: "runtime \<Rightarrow> converter \<Rightarrow> out" where
  "write_daily_folders py c = for_each (write_day_folder py c) (sorted_dates py c)"

definition write_kml :: "runtime \<Rightarrow> converter \<Rightarrow> bool \<Rightarrow> bool \<Rightarrow> out" where
  \<open>write_kml py c by_day with_tracks =
     block
       [emit ''<?xml version="1.0" encoding="UTF-8"?>'',
        emit ''<kml xmlns="http://www.opengis.net/kml/2.2">'',
        emit ''  <Document>'',
        emit ''    <name><![CDATA[Google Location History]]></name>'',
        emit ''    <description><![CDATA[Converted from Google Location History JSON]]></description>'',
        emit ''    <visibility>1</visibility>'',
        emit ''    <open>1</open>'',
        write_styles,
        if by_day then write_daily_folders py c
        else block
          [if activities c \<noteq> [] then write_activities_folder py c else skip,
           if visits c \<noteq> [] then write_visits_folder py c else skip,
           if with_tracks then write_tracks_folder py c else skip],
        emit ''  </Document>'',
        emit ''</kml>'']\<close>

text \<open>\<open>convert_to_kml\<close> on the converter \<open>c\<close>: the loop over the loaded entries, then
  \<open>write_kml\<close>. An exception in the loop leaves before the output file is opened.\<close>

definition convert_to_kml :: "runtime \<Rightarrow> converter \<Rightarrow> config \<Rightarrow> entry list \<Rightarrow> out" where
  "convert_to_kml py c cfg data =
     (case process_entries py cfg data c of
        Inl err \<Rightarrow> raise err
      | Inr c' \<Rightarrow> write_kml py c' (group_by_day cfg) (include_tracks cfg))"

text \<open>\<open>main\<close>: a new converter for the run.\<close>

definition main :: "runtime \<Rightarrow> config \<Rightarrow> entry list \<Rightarrow> out" where
  "main py cfg data = convert_to_kml py init cfg data"

subsection \<open>Reading the output\<close>



text \<open>
  The identifier of the folder a line opens, if it opens one, and the identifiers of the
  folders of an output, in the order they are opened.
\<close>

definition folder_id :: "string \<Rightarrow> string option" where
  \<open>folder_id line =
     (let t = dropWhile (\<lambda>c. c = CHR '' '') line
      in if take 12 t = ''<Folder id="'' then Some (butlast (butlast (drop 12 t))) else None)\<close>

definition folder_ids :: "out \<Rightarrow> string list" where
  "folder_ids out = List.map_filter folder_id (fst out)"

text \<open>
  The folders of one day as the grouped mode is described: the day folder, then the
  activities, visits and tracks sub-folders in that order, each only when the day has
  items of its kind.
\<close>

definition day_folder_ids :: "converter \<Rightarrow> string \<Rightarrow> string list" where
  "day_folder_ids c k =
     [''day_'' @ k]
     @ (if day_items (activities_by_day c) k \<noteq> []
        then [''activities_'' @ replace_char (CHR ''-'') (CHR ''_'') k] else [])
     @ (if day_items (visits_by_day c) k \<noteq> []
        then [''visits_'' @ replace_char (CHR ''-'') (CHR ''_'') k] else [])
     @ (if day_items (tracks_by_day c) k \<noteq> []
        then [''tracks_'' @ replace_char (CHR ''-'') (CHR ''_'') k] else [])"

text \<open>An iteration order of sets: every finite set is listed completely and without
  repetition.\<close>

definition valid_iter :: "(string set \<Rightarrow> string list) \<Rightarrow> bool" where
  "valid_iter it = (\<forall>S. finite S \<longrightarrow> set (it S) = S \<and> distinct (it S))"

subsection \<open>Comparing with the date bounds\<close>

text \<open>
  The instant a datetime denotes, a naive one read as UTC; whether an entry time can be
  compared with a bound (any entry time with an absent or naive bound, an aware entry time
  with any bound); and whether it lies within the bounds, both inclusive, an absent bound
  excluding nothing.
\<close>

definition instant :: "datetime \<Rightarrow> int" where
  "instant d = wall d - get_or (tzinfo d) utc"

definition comparable :: "datetime \<Rightarrow> datetime option \<Rightarrow> bool" where
  "comparable t bound =
     (case bound of None \<Rightarrow> True | Some d \<Rightarrow> tzinfo t \<noteq> None \<or> tzinfo d = None)"

definition within_bounds :: "datetime \<Rightarrow> datetime option \<Rightarrow> datetime option \<Rightarrow> bool" where
  "within_bounds t lo hi =
     ((case lo of None \<Rightarrow> True | Some d \<Rightarrow> instant d \<le> instant t)
      \<and> (case hi of None \<Rightarrow> True | Some d \<Rightarrow> instant t \<le> instant d))"

subsection \<open>The invariant of the day maps\<close>

text \<open>Every day under which a track is stored is a day under which an activity is
  stored.\<close>

definition track_days_inv :: "converter \<Rightarrow> bool" where
  "track_days_inv c = (set (keys (tracks_by_day c)) \<subseteq> set (keys (activities_by_day c)))"

text \<open>
  The day under which grouped mode stores an activity (lines 325 to 327): the date key of
  its start time, none when the start time is unknown. Every day bucket holds, in order,
  the stored activities of that day.
\<close>

definition day_of :: "runtime \<Rightarrow> activity \<Rightarrow> string option" where
  "day_of py a = (case start_time a of None \<Rightarrow> None | Some t \<Rightarrow> Some (get_date_key py t))"

definition buckets_inv :: "runtime \<Rightarrow> converter \<Rightarrow> bool" where
  "buckets_inv py c =
     (\<forall>k. day_items (activities_by_day c) k = filter (\<lambda>a. day_of py a = Some k) (activities c))"

subsection \<open>Sample inputs\<close>

text \<open>
  A runtime for evaluating the converter on the sample entries below: tables of what
  \<open>datetime.fromisoformat\<close>, \<open>strftime\<close>, \<open>float\<close> and the float formats return on the
  strings and numbers of these entries (readings in microseconds since 0001-01-01), an
  int-to-float conversion that overflows from \<open>2 ^ 1024\<close> on, and a set iteration in
  descending order.
\<close>

definition sample_fromisoformat :: "string \<Rightarrow> datetime option" where
  "sample_fromisoformat = map_of
     [(''2024-06-01T08:00:00+00:00'', \<lparr>wall = 63852825600000000, tzinfo = Some 0\<rparr>),
      (''2024-06-01T08:10:00+00:00'', \<lparr>wall = 63852826200000000, tzinfo = Some 0\<rparr>),
      (''2024-06-01T08:00:00'', \<lparr>wall = 63852825600000000, tzinfo = None\<rparr>),
      (''2024-03-01T09:00:00+00:00'', \<lparr>wall = 63844880400000000, tzinfo = Some 0\<rparr>),
      (''2024-03-02T10:00:00+00:00'', \<lparr>wall = 63844970400000000, tzinfo = Some 0\<rparr>),
      (''2020-01-01T00:00:00+00:00'', \<lparr>wall = 63713433600000000, tzinfo = Some 0\<rparr>),
      (''2024-03-01T09:00:00'', \<lparr>wall = 63844880400000000, tzinfo = None\<rparr>)]"

definition sample_strftime :: "datetime \<Rightarrow> string \<Rightarrow> string" where
  "sample_strftime dt fmt =
     (if fmt = ''%Y-%m-%d'' then
        (if wall dt = 63852825600000000 then ''2024-06-01''
         else if wall dt = 63844880400000000 then ''2024-03-01''
         else if wall dt = 63844970400000000 then ''2024-03-02''
         else ''2020-01-01'')
      else
        (if wall dt = 63852825600000000 then ''2024-06-01 08:00:00''
         else if wall dt = 63852826200000000 then ''2024-06-01 08:10:00''
         else if wall dt = 63844880400000000 then ''2024-03-01 09:00:00''
         else if wall dt = 63844970400000000 then ''2024-03-02 10:00:00''
         else ''2020-01-01 00:00:00''))"

definition sample_py :: runtime where
  "sample_py = \<lparr>fromisoformat = sample_fromisoformat,
     strftime = sample_strftime,
     float_of_str = map_of [(''1.0'', 1), (''2.0'', 2), (''3.0'', 3), (''4.0'', 4)],
     str_float = (\<lambda>x. if x = 1 then ''1.0'' else if x = 2 then ''2.0''
                      else if x = 3 then ''3.0'' else ''4.0''),
     format_f = (\<lambda>n x. ''10''),
     format_pct = (\<lambda>n x. ''90.0%''),
     str_title = (\<lambda>s. if s = ''gps track'' then ''Gps Track'' else ''Simple Track''),
     int_overflows = (\<lambda>n. 2 ^ 1024 \<le> \<bar>n\<bar>),
     set_iter = (\<lambda>S. rev (sorted_list_of_set S))\<rparr>"

definition waypoint_only_activity :: activity where
  "waypoint_only_activity =
     \<lparr>activity_type = ''walking'', start_time = None, end_time = None,
      start_coords = Some (1, 2), end_coords = None, probability = 0.9, distance = None,
      simplified_raw_path = Some \<lparr>points = Some []\<rparr>,
      waypoint_path = Some \<lparr>waypoints = Some
        [\<lparr>latE7 = Some 223357990, lngE7 = Some 1141736730\<rparr>,
         \<lparr>latE7 = Some 223400000, lngE7 = Some 1141800000\<rparr>]\<rparr>,
      transit_path = None\<rparr>"

definition default_config :: config where
  "default_config = \<lparr>start_date = None, end_date = None, min_accuracy = None,
     include_activities = True, include_visits = True, group_by_day = False,
     include_tracks = True\<rparr>"

definition visit_no_location :: entry where
  "visit_no_location =
     \<lparr>startTime = Some (Some ''2024-03-02T10:00:00Z''), endTime = None, e_activity = None,
      e_visit = Some \<lparr>v_topCandidate = Some \<lparr>placeLocation = None, placeID = Some ''abc'',
                                                semanticType = Some ''Home''\<rparr>,
                      v_probability = Some 0.9, hierarchyLevel = None\<rparr>\<rparr>"

definition bad_start_entry :: entry where
  "bad_start_entry =
     \<lparr>startTime = Some (Some ''not a time''), endTime = Some (Some ''2020-01-01T00:00:00Z''),
      e_activity = None, e_visit = None\<rparr>"

definition naive_entry :: entry where
  "naive_entry =
     \<lparr>startTime = Some (Some ''2024-06-01T08:00:00''), endTime = None,
      e_activity = None, e_visit = None\<rparr>"

definition walk_entry :: entry where
  "walk_entry =
     \<lparr>startTime = Some (Some ''2024-06-01T08:00:00Z''), endTime = Some (Some ''2024-06-01T08:10:00Z''),
      e_activity = Some \<lparr>geo_start = Some ''geo:1.0,2.0'', geo_end = Some ''geo:3.0,4.0'',
        topCandidate = Some \<lparr>tc_type = Some ''walking''\<rparr>, a_probability = Some 0.9,
        distanceMeters = None, simplifiedRawPath = None, waypointPath = None,
        transitPath = None\<rparr>,
      e_visit = None\<rparr>"

definition naive_bound :: datetime where
  "naive_bound = \<lparr>wall = 63839664000000000, tzinfo = None\<rparr>"

definition aware_bound :: datetime where
  "aware_bound = \<lparr>wall = 63839664000000000, tzinfo = Some utc\<rparr>"


definition grouped_config :: config where
  "grouped_config = default_config\<lparr>group_by_day := True\<rparr>"

definition home_visit_entry :: entry where
  "home_visit_entry =
     \<lparr>startTime = Some (Some ''2024-03-02T10:00:00Z''), endTime = None, e_activity = None,
      e_visit = Some \<lparr>v_topCandidate = Some \<lparr>placeLocation = Some ''geo:3.0,4.0'',
                                                placeID = Some ''abc'',
                                                semanticType = Some ''Home''\<rparr>,
                      v_probability = Some 0.9, hierarchyLevel = None\<rparr>\<rparr>"

definition sample_data :: "entry list" where
  "sample_data = [walk_entry, home_visit_entry]"

definition walk_activity :: activity where
  "walk_activity =
     \<lparr>activity_type = ''walking'',
      start_time = Some \<lparr>wall = 63852825600000000, tzinfo = Some 0\<rparr>,
      end_time = Some \<lparr>wall = 63852826200000000, tzinfo = Some 0\<rparr>,
      start_coords = Some (1, 2), end_coords = Some (3, 4),
      probability = 0.9, distance = None,
      simplified_raw_path = None, waypoint_path = None, transit_path = None\<rparr>"

definition walk_track :: track where
  "walk_track =
     \<lparr>coordinates = [(1, 2), (3, 4)],
      trk_start_time = Some \<lparr>wall = 63852825600000000, tzinfo = Some 0\<rparr>,
      trk_end_time = Some \<lparr>wall = 63852826200000000, tzinfo = Some 0\<rparr>,
      trk_activity_type = ''walking'', trk_distance = None,
      track_type = ''simple_track''\<rparr>"

definition home_visit :: visit where
  "home_visit =
     \<lparr>vis_start_time = Some \<lparr>wall = 63844970400000000, tzinfo = Some 0\<rparr>,
      vis_end_time = None, coords = (3, 4), place_id = Some ''abc'',
      semantic_type = ''Home'', vis_probability = 0.9, hierarchy_level = ''0''\<rparr>"

definition walk_state :: converter where
  "walk_state =
     \<lparr>activities = [walk_activity], visits = [], tracks = [walk_track],
      activities_by_day = [(''2024-06-01'', [walk_activity])],
      visits_by_day = [],
      tracks_by_day = [(''2024-06-01'', [walk_track])],
      stats_total_entries = 1, stats_activities = 1, stats_visits = 0,
      stats_tracks = 1, stats_filtered_out = 0\<rparr>"

definition sample_state :: converter where
  "sample_state =
     walk_state\<lparr>visits := [home_visit],
       visits_by_day := [(''2024-03-02'', [home_visit])],
       stats_total_entries := 2, stats_visits := 1\<rparr>"

text \<open>The entry with the unparsable start timestamp, with the value null under its
  \<open>startTime\<close> key instead.\<close>

definition null_start_entry :: entry where
  "null_start_entry = bad_start_entry\<lparr>startTime := Some None\<rparr>"

text \<open>A visit entry whose start timestamp has no zone designator and whose end timestamp
  has one, and the state of the converter after the walk entry and this entry.\<close>

definition mixed_visit_entry :: entry where
  "mixed_visit_entry =
     \<lparr>startTime = Some (Some ''2024-03-01T09:00:00''),
      endTime = Some (Some ''2024-03-02T10:00:00Z''), e_activity = None,
      e_visit = Some \<lparr>v_topCandidate = Some \<lparr>placeLocation = Some ''geo:3.0,4.0'',
                                                placeID = Some ''abc'',
                                                semanticType = Some ''Home''\<rparr>,
                      v_probability = Some 0.9, hierarchyLevel = None\<rparr>\<rparr>"

definition mixed_visit :: visit where
  "mixed_visit =
     \<lparr>vis_start_time = Some \<lparr>wall = 63844880400000000, tzinfo = None\<rparr>,
      vis_end_time = Some \<lparr>wall = 63844970400000000, tzinfo = Some 0\<rparr>,
      coords = (3, 4), place_id = Some ''abc'',
      semantic_type = ''Home'', vis_probability = 0.9, hierarchy_level = ''0''\<rparr>"

definition mixed_state :: converter where
  "mixed_state =
     walk_state\<lparr>visits := [mixed_visit],
       visits_by_day := [(''2024-03-01'', [mixed_visit])],
       stats_total_entries := 2, stats_visits := 1\<rparr>"

section \<open>Properties\<close>

subsection \<open>Evaluation of the sample inputs\<close>

lemma sample_ts [simp]:
  "parse_timestamp sample_py (Some ''not a time'') = None"
  "parse_timestamp sample_py (Some ''2020-01-01T00:00:00Z'') = Some \<lparr>wall = 63713433600000000, tzinfo = Some 0\<rparr>"
  "parse_timestamp sample_py (Some ''2024-06-01T08:00:00'') = Some \<lparr>wall = 63852825600000000, tzinfo = None\<rparr>"
  "parse_timestamp sample_py (Some ''2024-06-01T08:00:00Z'') = Some \<lparr>wall = 63852825600000000, tzinfo = Some 0\<rparr>"
  "parse_timestamp sample_py (Some ''2024-06-01T08:10:00Z'') = Some \<lparr>wall = 63852826200000000, tzinfo = Some 0\<rparr>"
  "parse_timestamp sample_py (Some ''2024-03-02T10:00:00Z'') = Some \<lparr>wall = 63844970400000000, tzinfo = Some 0\<rparr>"
  "parse_timestamp sample_py (Some ''2024-03-01T09:00:00Z'') = Some \<lparr>wall = 63844880400000000, tzinfo = Some 0\<rparr>"
  "parse_timestamp sample_py (Some ''2024-03-01T09:00:00'') = Some \<lparr>wall = 63844880400000000, tzinfo = None\<rparr>"
  by (simp_all add: parse_timestamp_def sample_py_def sample_fromisoformat_def)

lemma get_key_simps [simp]: "get_key None = None" "get_key (Some v) = v"
  by (simp_all add: get_key_def)

lemma sample_no_overflow [simp]:
  "\<not> int_overflows sample_py 0" "\<not> int_overflows sample_py 1141736730"
  "\<not> int_overflows sample_py 223357990" "\<not> int_overflows sample_py 223400000"
  "\<not> int_overflows sample_py 1141800000"
  by (simp_all add: sample_py_def)

lemma sample_geo [simp]:
  "parse_geo_coordinate sample_py None = None"
  "parse_geo_coordinate sample_py (Some ''geo:1.0,2.0'') = Some (1, 2)"
  "parse_geo_coordinate sample_py (Some ''geo:3.0,4.0'') = Some (3, 4)"
  by (simp_all add: parse_geo_coordinate_def sample_py_def)

subsection \<open>Track derivation\<close>

lemma e7_loop_filter:
  "e7_loop py cs ps =
     (if list_ex (\<lambda>p. int_overflows py (get_or (latE7 p) 0)
                      \<or> int_overflows py (get_or (lngE7 p) 0)) ps
      then Inl OverflowError
      else Inr (cs @ map (\<lambda>p. (real_of_int (get_or (latE7 p) 0) / 10000000,
                                real_of_int (get_or (lngE7 p) 0) / 10000000))
                      (filter (\<lambda>p. get_or (latE7 p) 0 \<noteq> 0 \<and> get_or (lngE7 p) 0 \<noteq> 0) ps)))"
  by (induction ps arbitrary: cs) (simp_all add: Let_def)

lemma stop_loop_filter:
  "stop_loop py cs ps =
     (if list_ex (\<lambda>p. int_overflows py (get_or (latitudeE7 p) 0)
                      \<or> int_overflows py (get_or (longitudeE7 p) 0)) ps
      then Inl OverflowError
      else Inr (cs @ map (\<lambda>p. (real_of_int (get_or (latitudeE7 p) 0) / 10000000,
                                real_of_int (get_or (longitudeE7 p) 0) / 10000000))
                      (filter (\<lambda>p. get_or (latitudeE7 p) 0 \<noteq> 0
                                 \<and> get_or (longitudeE7 p) 0 \<noteq> 0) ps)))"
  by (induction ps arbitrary: cs) (simp_all add: Let_def)

text \<open>
  C4, as the code has it: every E7 point is decoded by dividing each integer component
  (0 when the key is absent) by 10,000,000, and a point is kept exactly when both
  components are nonzero, so it is dropped as soon as one of them is zero; when a
  component of some point lies beyond the float range, the division raises OverflowError
  and no coordinate list is produced. This holds for the loops over raw points and
  waypoints and for the loop over transit stops.
\<close>

theorem C4_e7_points_kept_iff_both_nonzero:
  "e7_loop py [] ps =
     (if list_ex (\<lambda>p. int_overflows py (get_or (latE7 p) 0)
                      \<or> int_overflows py (get_or (lngE7 p) 0)) ps
      then Inl OverflowError
      else Inr (map (\<lambda>p. (real_of_int (get_or (latE7 p) 0) / 10000000,
                           real_of_int (get_or (lngE7 p) 0) / 10000000))
                 (filter (\<lambda>p. get_or (latE7 p) 0 \<noteq> 0 \<and> get_or (lngE7 p) 0 \<noteq> 0) ps)))
   \<and> stop_loop py [] ss =
     (if list_ex (\<lambda>p. int_overflows py (get_or (latitudeE7 p) 0)
                      \<or> int_overflows py (get_or (longitudeE7 p) 0)) ss
      then Inl OverflowError
      else Inr (map (\<lambda>p. (real_of_int (get_or (latitudeE7 p) 0) / 10000000,
                           real_of_int (get_or (longitudeE7 p) 0) / 10000000))
                 (filter (\<lambda>p. get_or (latitudeE7 p) 0 \<noteq> 0
                            \<and> get_or (longitudeE7 p) 0 \<noteq> 0) ss)))"
  by (simp add: e7_loop_filter stop_loop_filter)

text \<open>
  C4 as stated fails: the point with latitude 0 and longitude 114.173673 does not have
  both decoded values equal to 0, and it is dropped.
\<close>

theorem C4_one_zero_component_dropped:
  "\<not> (real_of_int 0 / 10000000 = (0::real) \<and> real_of_int 1141736730 / 10000000 = (0::real))
   \<and> e7_loop sample_py [] [\<lparr>latE7 = Some 0, lngE7 = Some 1141736730\<rparr>] = Inr []"
  by (simp add: get_or_def)

lemma e7_loop_overflow:
  "e7_loop sample_py [] [\<lparr>latE7 = Some (10 ^ 400), lngE7 = Some 1\<rparr>] = Inl OverflowError"
  by (simp add: get_or_def sample_py_def)

text \<open>
  C2 at an activity whose raw path object is present with an empty point list and whose
  waypoint path has two valid points: the coordinates of the track are the waypoints, and
  its label is \<open>gps_track\<close>.
\<close>

theorem C2_waypoint_coordinates_labelled_gps:
  "create_track_from_activity sample_py waypoint_only_activity =
     Inr (Some \<lparr>coordinates = [(223357990 / 10000000, 1141736730 / 10000000),
                                (223400000 / 10000000, 1141800000 / 10000000)],
                trk_start_time = None, trk_end_time = None, trk_activity_type = ''walking'',
                trk_distance = None, track_type = ''gps_track''\<rparr>)
   \<and> track_coordinates sample_py waypoint_only_activity =
       e7_loop sample_py [] (path_list (waypoint_path waypoint_only_activity) waypoints)"
  by (simp add: create_track_from_activity_def track_coordinates_def get_track_type_def
      waypoint_only_activity_def path_list_def get_or_def Let_def)

subsection \<open>The date filter\<close>

lemma filter_raises_only_naive_entry:
  assumes "filter_by_date_range py e sd ed = Inl err"
  shows "\<exists>t. entry_time py e = Some t \<and> tzinfo t = None
             \<and> ((\<exists>d. sd = Some d \<and> tzinfo d \<noteq> None) \<or> (\<exists>d. ed = Some d \<and> tzinfo d \<noteq> None))"
  using assms
  by (auto simp: filter_by_date_range_def make_aware_def make_naive_def below_bound_def
      above_bound_def dt_less_def dt_greater_def Let_def
      split: option.splits if_splits sum.splits bool.splits)

lemma filter_verdict:
  assumes "entry_time py e = Some t" and "sd \<noteq> None \<or> ed \<noteq> None"
    and "comparable t sd" and "comparable t ed"
  shows "filter_by_date_range py e sd ed = Inr (within_bounds t sd ed)"
  using assms
  by (auto simp: filter_by_date_range_def comparable_def within_bounds_def make_aware_def
      make_naive_def below_bound_def above_bound_def dt_less_def dt_greater_def instant_def
      get_or_def utc_def Let_def split: option.splits bool.splits sum.splits)

text \<open>
  C6, as the code has it: the date filter looks at the start timestamp when the entry has
  the key \<open>startTime\<close> and at the end timestamp only when it has not. With no bound the
  entry is included; when the timestamp looked at is missing, null or does not parse, the
  entry is included, so an entry whose start timestamp is present and does not parse is
  included whatever its end time is; and when it parses and can be compared with the
  bounds, the entry is included exactly when it lies within them, both inclusive, a naive
  bound read as UTC against an aware entry time.
\<close>

theorem C6_entry_time:
  assumes "t = (case startTime e of
                  Some v \<Rightarrow> parse_timestamp py v
                | None \<Rightarrow> parse_timestamp py (get_key (endTime e)))"
  shows "(sd = None \<and> ed = None \<longrightarrow> filter_by_date_range py e sd ed = Inr True)
       \<and> (t = None \<longrightarrow> filter_by_date_range py e sd ed = Inr True)
       \<and> (\<forall>x. t = Some x \<and> (sd \<noteq> None \<or> ed \<noteq> None) \<and> comparable x sd \<and> comparable x ed
              \<longrightarrow> filter_by_date_range py e sd ed = Inr (within_bounds x sd ed))"
proof -
  from assms have sel: "entry_time py e = t"
    by (simp add: entry_time_def get_key_def parse_timestamp_def split: option.splits)
  show ?thesis
  proof (intro conjI impI allI)
    show "filter_by_date_range py e sd ed = Inr True" if "sd = None \<and> ed = None"
      using that by (simp add: filter_by_date_range_def)
    show "filter_by_date_range py e sd ed = Inr True" if "t = None"
      using that sel by (simp add: filter_by_date_range_def)
    show "filter_by_date_range py e sd ed = Inr (within_bounds x sd ed)"
      if "t = Some x \<and> (sd \<noteq> None \<or> ed \<noteq> None) \<and> comparable x sd \<and> comparable x ed" for x
      using that sel filter_verdict [of py e x sd ed] by simp
  qed
qed

theorem C6_entry_time_witness:
  "filter_by_date_range sample_py bad_start_entry (Some naive_bound) None = Inr True
   \<and> filter_by_date_range sample_py null_start_entry (Some naive_bound) None = Inr True
   \<and> comparable \<lparr>wall = 63713433600000000, tzinfo = Some 0\<rparr> (Some naive_bound)
   \<and> \<not> within_bounds \<lparr>wall = 63713433600000000, tzinfo = Some 0\<rparr> (Some naive_bound) None
   \<and> filter_by_date_range sample_py (bad_start_entry\<lparr>startTime := None\<rparr>) (Some naive_bound) None
       = Inr False
   \<and> within_bounds \<lparr>wall = 63852825600000000, tzinfo = Some 0\<rparr> (Some naive_bound) None
   \<and> filter_by_date_range sample_py walk_entry (Some naive_bound) None = Inr True"
proof -
  have null: "parse_timestamp sample_py None = None"
    by (simp add: parse_timestamp_def)
  show ?thesis
    using C6_entry_time [where t = None and e = bad_start_entry and py = sample_py
        and sd = "Some naive_bound" and ed = None]
      C6_entry_time [where t = None and e = null_start_entry and py = sample_py
        and sd = "Some naive_bound" and ed = None]
      C6_entry_time [where t = "Some \<lparr>wall = 63713433600000000, tzinfo = Some 0\<rparr>"
        and e = "bad_start_entry\<lparr>startTime := None\<rparr>" and py = sample_py
        and sd = "Some naive_bound" and ed = None]
      C6_entry_time [where t = "Some \<lparr>wall = 63852825600000000, tzinfo = Some 0\<rparr>"
        and e = walk_entry and py = sample_py and sd = "Some naive_bound" and ed = None]
    by (simp add: null bad_start_entry_def null_start_entry_def walk_entry_def naive_bound_def
        comparable_def within_bounds_def instant_def get_or_def utc_def)
qed

text \<open>
  C6 as stated fails: the start timestamp of the sample entry does not parse and its end
  time lies before the start bound; the filter includes it, and it excludes the same
  entry without the \<open>startTime\<close> key.
\<close>

theorem C6_unparsable_start_no_fallback:
  "parse_timestamp sample_py (get_key (startTime bad_start_entry)) = None
   \<and> filter_by_date_range sample_py bad_start_entry (Some naive_bound) None = Inr True
   \<and> filter_by_date_range sample_py (bad_start_entry\<lparr>startTime := None\<rparr>) (Some naive_bound) None
       = Inr False"
  by (simp add: filter_by_date_range_def entry_time_def bad_start_entry_def naive_bound_def
      make_aware_def make_naive_def below_bound_def above_bound_def dt_less_def utc_def Let_def)

text \<open>
  C7 at an entry whose start time is naive, with an aware start bound: the comparison
  raises TypeError.
\<close>

theorem C7_naive_entry_aware_bound:
  "filter_by_date_range sample_py naive_entry (Some aware_bound) None = Inl TypeError"
  by (simp add: filter_by_date_range_def entry_time_def naive_entry_def aware_bound_def
      make_aware_def make_naive_def below_bound_def dt_less_def utc_def Let_def)

subsection \<open>The processing loop\<close>

text \<open>
  C5, as the code has it: an entry that passes the filters and is processed as a visit,
  and whose place location does not resolve, changes nothing but the counter of the
  entries seen: no collection changes, and the filtered-out counter stays as it was.
\<close>

theorem C5_visit_dropped:
  assumes "filter_by_date_range py e (start_date cfg) (end_date cfg) = Inr True"
    and "\<not> (e_activity e \<noteq> None \<and> include_activities cfg)"
    and "e_visit e \<noteq> None" and "include_visits cfg"
    and "parse_geo_coordinate py
           (placeLocation (get_or (v_topCandidate (get_or (e_visit e) no_visit_obj)) no_top_visit)) = None"
  shows "process_entry py cfg e c = Inr (c\<lparr>stats_total_entries := stats_total_entries c + 1\<rparr>)"
  using assms
  by (auto simp: process_entry_def process_visit_def add_visit_def filter_by_accuracy_def Let_def)

theorem C5_visit_dropped_witness:
  "process_entry sample_py default_config visit_no_location init =
     Inr (init\<lparr>stats_total_entries := stats_total_entries init + 1\<rparr>)"
  using C5_visit_dropped [of sample_py visit_no_location default_config init]
  by (simp add: filter_by_date_range_def default_config_def visit_no_location_def get_or_def
      no_top_visit_def no_visit_obj_def)

text \<open>
  C5 as stated fails: the sample visit without a place location is dropped, and the
  filtered-out counter is still 0 after it.
\<close>

theorem C5_dropped_visit_not_counted:
  "process_visit sample_py visit_no_location = None
   \<and> process_entry sample_py default_config visit_no_location init =
       Inr (init\<lparr>stats_total_entries := 1\<rparr>)
   \<and> stats_filtered_out (init\<lparr>stats_total_entries := 1\<rparr>) = 0"
  by (simp add: process_entry_def process_visit_def add_visit_def filter_by_date_range_def
      filter_by_accuracy_def default_config_def visit_no_location_def init_def get_or_def
      no_top_visit_def no_visit_obj_def Let_def)

lemma keys_day_append: "set (keys (day_append k v d)) = insert k (set (keys d))"
  by (induction k v d rule: day_append.induct) (simp_all add: keys_def insert_commute)

lemma add_track_keys:
  assumes "add_track py cfg a c = Inr c'"
  shows "set (keys (tracks_by_day c')) \<subseteq>
           set (keys (tracks_by_day c)) \<union>
           (case start_time a of
              Some t \<Rightarrow> if group_by_day cfg then {get_date_key py t} else {}
            | None \<Rightarrow> {})"
    and "activities_by_day c' = activities_by_day c"
    and "activities c' = activities c"
  using assms
  by (auto simp: add_track_def keys_day_append Let_def
      split: option.splits sum.splits if_splits)

lemma add_activity_inv:
  assumes "track_days_inv c" and "add_activity py cfg e c = Inr c'"
  shows "track_days_inv c'"
proof (cases "process_activity py e")
  case None
  with assms show ?thesis by (simp add: add_activity_def)
next
  case (Some a)
  let ?c1 = "c\<lparr>activities := activities c @ [a], stats_activities := stats_activities c + 1\<rparr>"
  from assms(2) Some obtain c2 where c2: "add_track py cfg a ?c1 = Inr c2"
    by (auto simp: add_activity_def Let_def split: sum.splits)
  from add_track_keys(1,2) [OF c2] assms(1)
  have sub: "set (keys (tracks_by_day c2)) \<subseteq>
      set (keys (activities_by_day c2)) \<union>
      (case start_time a of
         Some t \<Rightarrow> if group_by_day cfg then {get_date_key py t} else {}
       | None \<Rightarrow> {})"
    by (auto simp: track_days_inv_def)
  from assms(2) Some c2 sub show ?thesis
    by (auto simp: add_activity_def track_days_inv_def keys_day_append Let_def
        split: option.splits if_splits)
qed

lemma add_visit_inv: "track_days_inv c \<Longrightarrow> track_days_inv (add_visit py cfg e c)"
  by (auto simp: track_days_inv_def add_visit_def Let_def split: option.splits)

lemma inv_stats [simp]:
  "track_days_inv (c\<lparr>stats_total_entries := n\<rparr>) = track_days_inv c"
  "track_days_inv (c\<lparr>stats_filtered_out := n\<rparr>) = track_days_inv c"
  by (simp_all add: track_days_inv_def)

lemma process_entry_inv:
  "track_days_inv c \<Longrightarrow> process_entry py cfg e c = Inr c' \<Longrightarrow> track_days_inv c'"
  unfolding process_entry_def Let_def
  by (auto split: sum.splits bool.splits if_splits
      simp: add_visit_inv dest: add_activity_inv [rotated])

lemma process_entries_inv:
  "track_days_inv c \<Longrightarrow> process_entries py cfg data c = Inr c' \<Longrightarrow> track_days_inv c'"
  by (induction data arbitrary: c) (auto split: sum.splits dest: process_entry_inv)

lemma init_inv: "track_days_inv init"
  by (simp add: track_days_inv_def init_def keys_def)

lemma parse_None [simp]:
  "parse_timestamp py None = None" "parse_geo_coordinate py None = None"
  by (simp_all add: parse_timestamp_def parse_geo_coordinate_def)

lemma sample_keys [simp]:
  "get_date_key sample_py \<lparr>wall = 63852825600000000, tzinfo = Some 0\<rparr> = ''2024-06-01''"
  "get_date_key sample_py \<lparr>wall = 63844970400000000, tzinfo = Some 0\<rparr> = ''2024-03-02''"
  "get_date_key sample_py \<lparr>wall = 63844880400000000, tzinfo = None\<rparr> = ''2024-03-01''"
  by (simp_all add: get_date_key_def sample_py_def sample_strftime_def)

lemma walk_activity_eq: "process_activity sample_py walk_entry = Some walk_activity"
  by (simp add: process_activity_def walk_entry_def walk_activity_def get_or_def Let_def)

lemma walk_track_eq: "create_track_from_activity sample_py walk_activity = Inr (Some walk_track)"
  by (simp add: create_track_from_activity_def track_coordinates_def get_track_type_def
      path_list_def walk_activity_def walk_track_def Let_def)

lemma home_visit_eq: "process_visit sample_py home_visit_entry = Some home_visit"
  by (simp add: process_visit_def home_visit_entry_def home_visit_def get_or_def Let_def)

lemma walk_step: "process_entry sample_py grouped_config walk_entry init = Inr walk_state"
proof -
  have "filter_by_date_range sample_py walk_entry None None = Inr True"
    by (simp add: filter_by_date_range_def)
  moreover have "e_activity walk_entry \<noteq> None"
    by (simp add: walk_entry_def)
  moreover have "start_time walk_activity = Some \<lparr>wall = 63852825600000000, tzinfo = Some 0\<rparr>"
    by (simp add: walk_activity_def)
  ultimately show ?thesis
    by (simp add: process_entry_def filter_by_accuracy_def grouped_config_def
        default_config_def add_activity_def add_track_def walk_activity_eq walk_track_eq
        init_def walk_state_def Let_def)
qed

lemma visit_step:
  "process_entry sample_py grouped_config home_visit_entry walk_state = Inr sample_state"
proof -
  have "filter_by_date_range sample_py home_visit_entry None None = Inr True"
    by (simp add: filter_by_date_range_def)
  moreover have "e_activity home_visit_entry = None" "e_visit home_visit_entry \<noteq> None"
    by (simp_all add: home_visit_entry_def)
  moreover have "vis_start_time home_visit = Some \<lparr>wall = 63844970400000000, tzinfo = Some 0\<rparr>"
    by (simp add: home_visit_def)
  ultimately show ?thesis
    by (simp add: process_entry_def filter_by_accuracy_def grouped_config_def
        default_config_def add_visit_def home_visit_eq sample_state_def walk_state_def
        Let_def)
qed

lemma sample_run: "process_entries sample_py grouped_config sample_data init = Inr sample_state"
  by (simp add: sample_data_def walk_step visit_step)

text \<open>
  C10: the invariant holds in the new converter and is kept by every processing step, so
  after every run each day key of the tracks-by-day map is a key of the activities-by-day
  map, and the set of dates that \<open>write_daily_folders\<close> iterates (the activity and visit
  days) contains every track day.
\<close>

theorem C10_track_days:
  "track_days_inv init
   \<and> (track_days_inv c \<and> process_entry py cfg e c = Inr c' \<longrightarrow> track_days_inv c')
   \<and> (process_entries py cfg data init = Inr c'' \<longrightarrow>
        set (keys (tracks_by_day c'')) \<subseteq> set (keys (activities_by_day c''))
        \<and> set (keys (tracks_by_day c'')) \<subseteq> all_dates c'')"
proof (intro conjI impI)
  show "track_days_inv init"
    by (rule init_inv)
  show "track_days_inv c'" if "track_days_inv c \<and> process_entry py cfg e c = Inr c'"
    using that process_entry_inv by blast
  assume "process_entries py cfg data init = Inr c''"
  then have "track_days_inv c''"
    using process_entries_inv init_inv by blast
  then show "set (keys (tracks_by_day c'')) \<subseteq> set (keys (activities_by_day c''))"
    and "set (keys (tracks_by_day c'')) \<subseteq> all_dates c''"
    by (auto simp: track_days_inv_def all_dates_def)
qed

theorem C10_track_days_witness:
  "track_days_inv init
   \<and> track_days_inv walk_state
   \<and> process_entry sample_py grouped_config home_visit_entry walk_state = Inr sample_state
   \<and> track_days_inv sample_state
   \<and> process_entries sample_py grouped_config sample_data init = Inr sample_state
   \<and> keys (tracks_by_day sample_state) = [''2024-06-01'']
   \<and> set (keys (tracks_by_day sample_state)) \<subseteq> set (keys (activities_by_day sample_state))
   \<and> set (keys (tracks_by_day sample_state)) \<subseteq> all_dates sample_state"
proof -
  have "track_days_inv walk_state"
    by (simp add: track_days_inv_def walk_state_def keys_def)
  moreover have "keys (tracks_by_day sample_state) = [''2024-06-01'']"
    by (simp add: sample_state_def walk_state_def keys_def)
  ultimately show ?thesis
    using C10_track_days [of walk_state sample_py grouped_config home_visit_entry sample_state
        sample_data sample_state]
    by (simp add: visit_step sample_run)
qed

subsection \<open>Outputs\<close>

lemma fst_seq: "snd a = None \<Longrightarrow> fst (seq a b) = fst a @ fst b"
  by (simp add: seq_def)

lemma snd_seq: "snd (seq a b) = None \<longleftrightarrow> snd a = None \<and> snd b = None"
  by (auto simp: seq_def split: option.splits)

lemma snd_block: "snd (block xs) = None \<longleftrightarrow> (\<forall>x\<in>set xs. snd x = None)"
  by (induction xs) (auto simp: block_def skip_def snd_seq)

lemma fst_block: "snd (block xs) = None \<Longrightarrow> fst (block xs) = concat (map fst xs)"
proof (induction xs)
  case Nil
  then show ?case by (simp add: block_def skip_def)
next
  case (Cons x xs)
  have "block (x # xs) = seq x (block xs)" by (simp add: block_def)
  with Cons show ?case by (simp add: snd_seq fst_seq)
qed

lemma snd_for_each: "snd (for_each f xs) = None \<longleftrightarrow> (\<forall>x\<in>set xs. snd (f x) = None)"
  by (simp add: for_each_def snd_block)

lemma fst_for_each:
  "snd (for_each f xs) = None \<Longrightarrow> fst (for_each f xs) = concat (map (\<lambda>x. fst (f x)) xs)"
  by (simp add: for_each_def fst_block comp_def)

lemma out_simps [simp]:
  "fst (emit s) = [s]" "snd (emit s) = None" "fst skip = []" "snd skip = None"
  "fst (raise err) = []" "snd (raise err) = Some err"
  by (simp_all add: emit_def skip_def raise_def)


subsection \<open>Activity placemarks\<close>

lemma snd_write_activity_placemark [simp]: "snd (write_activity_placemark py a pt ind) = None"
  by (simp add: write_activity_placemark_def snd_block Let_def split: option.splits prod.splits)

lemma snd_write_activity_points [simp]: "snd (write_activity_points py ind a) = None"
  by (simp add: write_activity_points_def snd_block)











lemma snd_points_loop [simp]: "snd (for_each (write_activity_points py ind) xs) = None"
  by (simp add: snd_for_each)







subsection \<open>Folder identifiers\<close>

lemma map_filter_append: "List.map_filter f (xs @ ys) = List.map_filter f xs @ List.map_filter f ys"
  by (simp add: List.map_filter_def)

lemma folder_ids_seq_Nil:
  "folder_ids a = [] \<Longrightarrow> folder_ids b = [] \<Longrightarrow> folder_ids (seq a b) = []"
  by (simp add: folder_ids_def seq_def map_filter_append split: option.splits)

lemma folder_ids_block_Nil:
  "(\<And>x. x \<in> set xs \<Longrightarrow> folder_ids x = []) \<Longrightarrow> folder_ids (block xs) = []"
proof (induction xs)
  case Nil
  then show ?case by (simp add: block_def skip_def folder_ids_def List.map_filter_def)
next
  case (Cons x xs)
  have "block (x # xs) = seq x (block xs)" by (simp add: block_def)
  with Cons show ?case by (simp add: folder_ids_seq_Nil)
qed

lemma folder_ids_for_each_Nil:
  "(\<And>x. x \<in> set xs \<Longrightarrow> folder_ids (f x) = []) \<Longrightarrow> folder_ids (for_each f xs) = []"
  unfolding for_each_def by (rule folder_ids_block_Nil) auto

lemma folder_ids_block:
  "snd (block xs) = None \<Longrightarrow> folder_ids (block xs) = concat (map folder_ids xs)"
  by (simp add: folder_ids_def [abs_def] fst_block List.map_filter_def comp_def
      map_concat filter_concat)

lemma folder_ids_simps [simp]:
  "folder_ids skip = []" "folder_ids (raise err) = []"
  "folder_ids (emit l) = (case folder_id l of None \<Rightarrow> [] | Some i \<Rightarrow> [i])"
  by (simp_all add: folder_ids_def List.map_filter_def split: option.splits)

lemma folder_id_indent: "set ind \<subseteq> {CHR '' ''} \<Longrightarrow> folder_id (ind @ l) = folder_id l"
proof -
  assume "set ind \<subseteq> {CHR '' ''}"
  then have "dropWhile (\<lambda>c. c = CHR '' '') (ind @ l) = dropWhile (\<lambda>c. c = CHR '' '') l"
    by (intro dropWhile_append2) auto
  then show ?thesis by (simp add: folder_id_def)
qed

lemma folder_ids_activity_placemark:
  "set ind \<subseteq> {CHR '' ''} \<Longrightarrow> folder_ids (write_activity_placemark py a pt ind) = []"
  unfolding write_activity_placemark_def Let_def
  by (auto split: option.splits prod.splits intro!: folder_ids_block_Nil
      simp: folder_id_indent) (simp_all add: folder_id_def)

lemma folder_ids_activity_points:
  "set ind \<subseteq> {CHR '' ''} \<Longrightarrow> folder_ids (write_activity_points py ind a) = []"
  unfolding write_activity_points_def
  by (auto intro!: folder_ids_block_Nil simp: folder_ids_activity_placemark)

lemma folder_ids_visit_placemark:
  "set ind \<subseteq> {CHR '' ''} \<Longrightarrow> folder_ids (write_visit_placemark py v ind) = []"
  unfolding write_visit_placemark_def Let_def
  by (auto split: sum.splits prod.splits intro!: folder_ids_block_Nil
      simp: folder_id_indent) (simp_all add: folder_id_def)

lemma folder_ids_track_placemark:
  "set ind \<subseteq> {CHR '' ''} \<Longrightarrow> folder_ids (write_track_placemark py trk i ind) = []"
  unfolding write_track_placemark_def Let_def
  by (auto split: sum.splits prod.splits intro!: folder_ids_block_Nil
      simp: folder_id_indent) (simp_all add: folder_id_def)

lemma butlast_snoc2 [simp]: "butlast (xs @ [a, b]) = xs @ [a]"
  by (simp add: butlast_append)

lemma folder_ids_daily_activities:
  "folder_ids (write_daily_activities_folder py k acts)
   = [''activities_'' @ replace_char (CHR ''-'') (CHR ''_'') k]"
proof -
  have "folder_ids (for_each (write_activity_points py ''        '') acts) = []"
    by (rule folder_ids_for_each_Nil) (simp add: folder_ids_activity_points)
  then show ?thesis
    by (simp add: write_daily_activities_folder_def folder_ids_block snd_block folder_id_def)
qed

lemma folder_ids_daily_visits:
  assumes "snd (write_daily_visits_folder py k vs) = None"
  shows "folder_ids (write_daily_visits_folder py k vs)
         = [''visits_'' @ replace_char (CHR ''-'') (CHR ''_'') k]"
proof -
  have "folder_ids (for_each (\<lambda>v. write_visit_placemark py v ''        '') vs) = []"
    by (rule folder_ids_for_each_Nil) (simp add: folder_ids_visit_placemark)
  with assms show ?thesis
    by (simp add: write_daily_visits_folder_def folder_ids_block snd_block folder_id_def)
qed

lemma folder_ids_daily_tracks:
  assumes "snd (write_daily_tracks_folder py k ts) = None"
  shows "folder_ids (write_daily_tracks_folder py k ts)
         = [''tracks_'' @ replace_char (CHR ''-'') (CHR ''_'') k]"
proof -
  have "folder_ids (for_each (\<lambda>(i, trk). write_track_placemark py trk i ''        '')
          (enumerate 0 ts)) = []"
    by (rule folder_ids_for_each_Nil) (simp add: folder_ids_track_placemark split: prod.splits)
  with assms show ?thesis
    by (simp add: write_daily_tracks_folder_def folder_ids_block snd_block folder_id_def)
qed

lemma folder_ids_day:
  assumes "snd (write_day_folder py c k) = None"
  shows "folder_ids (write_day_folder py c k) = day_folder_ids c k"
proof -
  from assms have
    "day_items (visits_by_day c) k \<noteq> [] \<Longrightarrow>
       snd (write_daily_visits_folder py k (day_items (visits_by_day c) k)) = None"
    "day_items (tracks_by_day c) k \<noteq> [] \<Longrightarrow>
       snd (write_daily_tracks_folder py k (day_items (tracks_by_day c) k)) = None"
    by (simp_all add: write_day_folder_def snd_block)
  with assms show ?thesis
    by (simp add: write_day_folder_def folder_ids_block snd_block day_folder_ids_def
        folder_ids_daily_activities folder_ids_daily_visits folder_ids_daily_tracks
        folder_id_def)
qed



subsection \<open>The sorted dates\<close>

lemma sort_iter:
  assumes "valid_iter it" and "finite S"
  shows "sort (it S) = sorted_list_of_set S"
proof -
  from assms have "set (it S) = S" and "distinct (it S)"
    by (simp_all add: valid_iter_def)
  then have "sorted_list_of_set S = sort (remdups (it S))"
    using sorted_list_of_set_sort_remdups [of "it S"] by simp
  with \<open>distinct (it S)\<close> show ?thesis
    by (simp add: distinct_remdups_id)
qed

lemma finite_all_dates: "finite (all_dates c)"
  by (simp add: all_dates_def)

lemma sorted_dates_valid:
  "valid_iter (set_iter py) \<Longrightarrow> sorted_dates py c = sorted_list_of_set (all_dates c)"
  by (simp add: sorted_dates_def sort_iter finite_all_dates)


lemma valid_iter_sorted: "valid_iter sorted_list_of_set"
  by (simp add: valid_iter_def)

lemma valid_iter_rev: "valid_iter (\<lambda>S. rev (sorted_list_of_set S))"
  by (simp add: valid_iter_def)

lemma sample_valid: "valid_iter (set_iter sample_py)"
  by (simp add: sample_py_def valid_iter_rev)

lemma sample_dates: "sorted_dates sample_py sample_state = [''2024-03-02'', ''2024-06-01'']"
  by (simp add: sorted_dates_valid sample_valid all_dates_def sample_state_def walk_state_def
      keys_def sorted_list_of_set_sort_remdups [of "[a, b]" for a b, simplified])

lemma snd_visit_ok:
  "visit_duration py v = Inr d \<Longrightarrow> snd (write_visit_placemark py v ind) = None"
  by (simp add: write_visit_placemark_def snd_block Let_def split: prod.splits)

lemma snd_track_ok:
  "track_duration py trk = Inr d \<Longrightarrow> snd (write_track_placemark py trk i ind) = None"
  by (simp add: write_track_placemark_def snd_block Let_def)

lemma sample_durations:
  "visit_duration sample_py home_visit = Inr []"
  "track_duration sample_py walk_track = Inr ''<br/>Duration: 10 minutes''"
  by (simp_all add: visit_duration_def track_duration_def home_visit_def walk_track_def
      dt_sub_def total_seconds_def sample_py_def Let_def)

lemma sample_items:
  "day_items (activities_by_day sample_state) ''2024-06-01'' = [walk_activity]"
  "day_items (visits_by_day sample_state) ''2024-06-01'' = []"
  "day_items (tracks_by_day sample_state) ''2024-06-01'' = [walk_track]"
  "day_items (activities_by_day sample_state) ''2024-03-02'' = []"
  "day_items (visits_by_day sample_state) ''2024-03-02'' = [home_visit]"
  "day_items (tracks_by_day sample_state) ''2024-03-02'' = []"
  by (simp_all add: day_items_def sample_state_def walk_state_def)

lemma sample_day_ok:
  "snd (write_day_folder sample_py sample_state ''2024-06-01'') = None"
  "snd (write_day_folder sample_py sample_state ''2024-03-02'') = None"
  by (simp_all add: write_day_folder_def write_daily_activities_folder_def
      write_daily_visits_folder_def write_daily_tracks_folder_def snd_block snd_for_each
      sample_items snd_visit_ok [OF sample_durations(1)] snd_track_ok [OF sample_durations(2)])




lemma hd_block_emit: "hd (fst (block (emit l # xs))) = l"
  by (simp add: block_def seq_def emit_def)

text \<open>
  C3 at the sample state: the folder of the day 2024-06-01 is opened with the identifier
  \<open>day_2024-06-01\<close>, hyphens kept, while its sub-folders have them replaced.
\<close>


theorem C3_day_folder_id_keeps_hyphens:
  \<open>hd (fst (write_day_folder sample_py sample_state ''2024-06-01''))
     = ''    <Folder id="day_2024-06-01">''
   \<and> folder_ids (write_day_folder sample_py sample_state ''2024-06-01'')
     = [''day_2024-06-01'', ''activities_2024_06_01'', ''tracks_2024_06_01'']\<close>
proof -
  have \<open>hd (fst (write_day_folder sample_py sample_state ''2024-06-01''))
        = ''    <Folder id="day_2024-06-01">''\<close>
    unfolding write_day_folder_def by (simp only: hd_block_emit) simp
  then show ?thesis
    by (simp add: folder_ids_day sample_day_ok day_folder_ids_def sample_items replace_char_def)
qed

subsection \<open>Independence of the iteration order of sets\<close>

lemmas branch_congs = if_cong let_cong option.case_cong sum.case_cong prod.case_cong
  bool.case_cong

lemma iter_parse [simp]:
  "parse_timestamp (py\<lparr>set_iter := h\<rparr>) = parse_timestamp py"
  "parse_geo_coordinate (py\<lparr>set_iter := h\<rparr>) = parse_geo_coordinate py"
  "format_timestamp_for_kml (py\<lparr>set_iter := h\<rparr>) = format_timestamp_for_kml py"
  "get_date_key (py\<lparr>set_iter := h\<rparr>) = get_date_key py"
  by (simp_all add: fun_eq_iff parse_timestamp_def parse_geo_coordinate_def
      format_timestamp_for_kml_def get_date_key_def cong: branch_congs)

lemma iter_process [simp]:
  "process_activity (py\<lparr>set_iter := h\<rparr>) = process_activity py"
  "process_visit (py\<lparr>set_iter := h\<rparr>) = process_visit py"
  "entry_time (py\<lparr>set_iter := h\<rparr>) = entry_time py"
  by (simp_all add: fun_eq_iff process_activity_def process_visit_def entry_time_def
      cong: branch_congs)

lemma iter_filter [simp]:
  "filter_by_date_range (py\<lparr>set_iter := h\<rparr>) = filter_by_date_range py"
  by (simp add: fun_eq_iff filter_by_date_range_def cong: branch_congs)

lemma iter_e7_loop [simp]: "e7_loop (py\<lparr>set_iter := h\<rparr>) cs ps = e7_loop py cs ps"
  by (induction ps arbitrary: cs) simp_all

lemma iter_stop_loop [simp]: "stop_loop (py\<lparr>set_iter := h\<rparr>) cs ss = stop_loop py cs ss"
  by (induction ss arbitrary: cs) simp_all

lemma iter_track [simp]:
  "track_coordinates (py\<lparr>set_iter := h\<rparr>) = track_coordinates py"
  by (simp add: fun_eq_iff track_coordinates_def cong: branch_congs)

lemma iter_create_track [simp]:
  "create_track_from_activity (py\<lparr>set_iter := h\<rparr>) = create_track_from_activity py"
  by (simp add: fun_eq_iff create_track_from_activity_def cong: branch_congs)

lemma iter_add [simp]:
  "add_track (py\<lparr>set_iter := h\<rparr>) = add_track py"
  "add_visit (py\<lparr>set_iter := h\<rparr>) = add_visit py"
  by (simp_all add: fun_eq_iff add_track_def add_visit_def cong: branch_congs)

lemma iter_add_activity [simp]:
  "add_activity (py\<lparr>set_iter := h\<rparr>) = add_activity py"
  by (simp add: fun_eq_iff add_activity_def cong: branch_congs)

lemma iter_process_entry [simp]:
  "process_entry (py\<lparr>set_iter := h\<rparr>) = process_entry py"
  by (simp add: fun_eq_iff process_entry_def cong: branch_congs)

lemma iter_process_entries [simp]:
  "process_entries (py\<lparr>set_iter := h\<rparr>) cfg data c = process_entries py cfg data c"
  by (induction data arbitrary: c) (simp_all split: sum.splits)

lemma iter_sel:
  "strftime (py\<lparr>set_iter := h\<rparr>) = strftime py"
  "str_float (py\<lparr>set_iter := h\<rparr>) = str_float py"
  "format_f (py\<lparr>set_iter := h\<rparr>) = format_f py"
  "format_pct (py\<lparr>set_iter := h\<rparr>) = format_pct py"
  "str_title (py\<lparr>set_iter := h\<rparr>) = str_title py"
  by simp_all

lemma iter_activity_placemark [simp]:
  "write_activity_placemark (py\<lparr>set_iter := h\<rparr>) = write_activity_placemark py"
  by (simp only: fun_eq_iff write_activity_placemark_def iter_sel iter_parse cong: branch_congs)
    simp

lemma iter_activity_points [simp]:
  "write_activity_points (py\<lparr>set_iter := h\<rparr>) = write_activity_points py"
  by (simp only: fun_eq_iff write_activity_points_def iter_activity_placemark cong: branch_congs)
    simp

lemma iter_durations [simp]:
  "visit_duration (py\<lparr>set_iter := h\<rparr>) = visit_duration py"
  "track_duration (py\<lparr>set_iter := h\<rparr>) = track_duration py"
  by (simp_all only: fun_eq_iff visit_duration_def track_duration_def iter_sel
      cong: branch_congs) simp_all

lemma iter_visit_placemark [simp]:
  "write_visit_placemark (py\<lparr>set_iter := h\<rparr>) = write_visit_placemark py"
  by (simp only: fun_eq_iff write_visit_placemark_def iter_sel iter_parse iter_durations
      cong: branch_congs) simp

lemma iter_track_placemark [simp]:
  "write_track_placemark (py\<lparr>set_iter := h\<rparr>) = write_track_placemark py"
  by (simp only: fun_eq_iff write_track_placemark_def iter_sel iter_parse iter_durations
      cong: branch_congs) simp

lemma iter_folders [simp]:
  "write_activities_folder (py\<lparr>set_iter := h\<rparr>) = write_activities_folder py"
  "write_visits_folder (py\<lparr>set_iter := h\<rparr>) = write_visits_folder py"
  "write_tracks_folder (py\<lparr>set_iter := h\<rparr>) = write_tracks_folder py"
  "write_daily_activities_folder (py\<lparr>set_iter := h\<rparr>) = write_daily_activities_folder py"
  "write_daily_visits_folder (py\<lparr>set_iter := h\<rparr>) = write_daily_visits_folder py"
  "write_daily_tracks_folder (py\<lparr>set_iter := h\<rparr>) = write_daily_tracks_folder py"
  by (simp_all only: fun_eq_iff write_activities_folder_def write_visits_folder_def
      write_tracks_folder_def write_daily_activities_folder_def write_daily_visits_folder_def
      write_daily_tracks_folder_def iter_activity_points iter_visit_placemark
      iter_track_placemark cong: branch_congs) simp_all

lemma iter_day_folder [simp]:
  "write_day_folder (py\<lparr>set_iter := h\<rparr>) = write_day_folder py"
  by (simp only: fun_eq_iff write_day_folder_def iter_folders cong: branch_congs) simp

lemma iter_daily_folders:
  "valid_iter h \<Longrightarrow>
   write_daily_folders (py\<lparr>set_iter := h\<rparr>) c
   = for_each (write_day_folder py c) (sorted_list_of_set (all_dates c))"
  by (simp add: write_daily_folders_def sorted_dates_valid)

lemma iter_write_kml:
  "valid_iter h1 \<Longrightarrow> valid_iter h2 \<Longrightarrow>
   write_kml (py\<lparr>set_iter := h1\<rparr>) c by_day with_tracks
   = write_kml (py\<lparr>set_iter := h2\<rparr>) c by_day with_tracks"
  by (simp only: write_kml_def iter_daily_folders iter_folders cong: branch_congs)

text \<open>
  C9: two runs from a new converter on the same entries and configuration write the same
  output, whatever order each of the two processes iterates its sets in (the only part of
  the pipeline that is not a function of the input).
\<close>

theorem C9_same_output:
  assumes "valid_iter h1" and "valid_iter h2"
  shows "main (py\<lparr>set_iter := h1\<rparr>) cfg data = main (py\<lparr>set_iter := h2\<rparr>) cfg data"
  using iter_write_kml [OF assms]
  by (simp add: main_def convert_to_kml_def split: sum.splits)

theorem C9_same_output_witness:
  "valid_iter (\<lambda>S. rev (sorted_list_of_set S)) \<and> valid_iter sorted_list_of_set
   \<and> rev (sorted_list_of_set (all_dates sample_state)) = [''2024-06-01'', ''2024-03-02'']
   \<and> sorted_list_of_set (all_dates sample_state) = [''2024-03-02'', ''2024-06-01'']
   \<and> main (sample_py\<lparr>set_iter := \<lambda>S. rev (sorted_list_of_set S)\<rparr>) grouped_config sample_data
     = main (sample_py\<lparr>set_iter := sorted_list_of_set\<rparr>) grouped_config sample_data"
proof -
  have "sorted_list_of_set (all_dates sample_state) = [''2024-03-02'', ''2024-06-01'']"
    using sample_dates by (simp add: sorted_dates_valid sample_valid)
  then show ?thesis
    using C9_same_output [OF valid_iter_rev valid_iter_sorted, of sample_py grouped_config sample_data]
    by (simp add: valid_iter_rev valid_iter_sorted)
qed

end
